theory Spec2Isabelle
  imports Complex_Main
begin

section \<open>JavaScript strings\<close>

text \<open>
  Strings are lists of code units. The model uses the 8-bit characters of HOL, which
  covers the data URLs, MIME types and base64 payloads the program handles; the line
  separators U+2028 and U+2029 and the Unicode space characters above U+00FF are not
  representable and so are not part of the model.
\<close>

text \<open>\<^verbatim>\<open>String.prototype.split(sep)\<close> for a one-character separator: the segments between
  the separators, in order; a string without separator is the only segment.\<close>

fun split :: "char \<Rightarrow> string \<Rightarrow> string list" where
  "split sep [] = [[]]"
| "split sep (c # cs) =
     (if c = sep then [] # split sep cs
      else (case split sep cs of
              [] \<Rightarrow> [[c]]
            | seg # segs \<Rightarrow> (c # seg) # segs))"

text \<open>Array destructuring \<^verbatim>\<open>const [header, base64] = parts\<close>: a missing element is
  \<^verbatim>\<open>undefined\<close>, modelled as \<open>None\<close>.\<close>

definition element :: "'a list \<Rightarrow> nat \<Rightarrow> 'a option" where
  "element xs i = (if i < length xs then Some (xs ! i) else None)"

text \<open>Truthiness of a possibly undefined string: \<^verbatim>\<open>undefined\<close>, \<^verbatim>\<open>null\<close> and the empty
  string are falsy.\<close>

definition truthy :: "string option \<Rightarrow> bool" where
  "truthy v = (case v of None \<Rightarrow> False | Some s \<Rightarrow> s \<noteq> [])"

definition isLineTerminator :: "char \<Rightarrow> bool" where
  "isLineTerminator c = (c = CHR 0x0A \<or> c = CHR 0x0D)"

definition isWhiteSpace :: "char \<Rightarrow> bool" where
  "isWhiteSpace c =
     (c = CHR 0x09 \<or> c = CHR 0x0B \<or> c = CHR 0x0C \<or> c = CHR 0x20 \<or> c = CHR 0xA0
      \<or> isLineTerminator c)"

text \<open>\<^verbatim>\<open>String.prototype.trim()\<close>.\<close>

definition trim :: "string \<Rightarrow> string" where
  "trim s = rev (dropWhile isWhiteSpace (rev (dropWhile isWhiteSpace s)))"

text \<open>\<^verbatim>\<open>String.prototype.startsWith(prefix)\<close>.\<close>

definition startsWith :: "string \<Rightarrow> string \<Rightarrow> bool" where
  "startsWith s pre = (take (length pre) s = pre)"

text \<open>
  The regular expression \<^verbatim>\<open>/:(.*?);/\<close>, as used by \<^verbatim>\<open>header.match(/:(.*?);/)\<close>.
  \<open>lazyUntilSemicolon\<close> is the part after the colon: the lazy \<^verbatim>\<open>.*?\<close> stops at the
  first semicolon, and fails when a line terminator comes first, since \<^verbatim>\<open>.\<close> does not
  match one. \<open>matchMimeType\<close> tries the start positions from the left and returns
  capture group 1 of the first match (\<open>None\<close> for a \<^verbatim>\<open>null\<close> match result).
\<close>

fun lazyUntilSemicolon :: "string \<Rightarrow> string option" where
  "lazyUntilSemicolon [] = None"
| "lazyUntilSemicolon (c # cs) =
     (if c = CHR '';'' then Some []
      else if isLineTerminator c then None
      else map_option ((#) c) (lazyUntilSemicolon cs))"

fun matchMimeType :: "string \<Rightarrow> string option" where
  "matchMimeType [] = None"
| "matchMimeType (c # cs) =
     (if c = CHR '':'' then
        (case lazyUntilSemicolon cs of
           Some m \<Rightarrow> Some m
         | None \<Rightarrow> matchMimeType cs)
      else matchMimeType cs)"

section \<open>Error messages\<close>

text \<open>
  Every error of the program is a plain \<^verbatim>\<open>Error\<close> object told apart only by its message.
  The messages are named here after the place that creates them.
\<close>

datatype message =
    InvalidFileFormat          \<comment> \<open>fileToBase64: 'Invalid file format. Could not split data URL.'\<close>
  | NoMimeType                 \<comment> \<open>fileToBase64: 'Could not determine MIME type of the file.'\<close>
  | ReadFailed                 \<comment> \<open>fileToBase64: the event passed on by reader.onerror\<close>
  | NoImageGenerated           \<comment> \<open>geminiService: 'Nenhuma imagem foi gerada na resposta. ...'\<close>
  | NoCanvasContext            \<comment> \<open>geminiService: 'Nao foi possivel obter o contexto do canvas ...'\<close>
  | ImageLoadFailed            \<comment> \<open>geminiService: the event passed on by image.onerror\<close>
  | ServiceFailure             \<comment> \<open>whatever ai.models.generateContent rejects with\<close>
  | EditFailed                 \<comment> \<open>geminiService: 'Falha ao editar a imagem. ...'\<close>
  | SelectionEditFailed        \<comment> \<open>geminiService: 'Falha ao editar a area selecionada. ...'\<close>
  | InvalidFileType            \<comment> \<open>App: 'Tipo de arquivo invalido. Por favor, envie uma imagem.'\<close>
  | UploadFailed               \<comment> \<open>App: 'Nao foi possivel processar o arquivo enviado.'\<close>
  | ReferenceUploadFailed      \<comment> \<open>App: 'Nao foi possivel processar o arquivo de referencia.'\<close>
  | MissingImageOrPrompt       \<comment> \<open>App: 'Por favor, envie uma imagem e insira uma instrucao de edicao.'\<close>
  | MissingSelectionOrPrompt   \<comment> \<open>App: 'Por favor, selecione uma area e insira uma instrucao para editar.'\<close>
  | EditedImageUnreadable      \<comment> \<open>App: 'Nao foi possivel processar a imagem editada existente.'\<close>

section \<open>fileUtils: fileToBase64\<close>

text \<open>
  A \<^verbatim>\<open>File\<close> as the program sees it: its declared MIME type \<^verbatim>\<open>file.type\<close>, what
  \<^verbatim>\<open>FileReader.readAsDataURL\<close> delivers for it (\<open>None\<close> when the reader fires
  \<^verbatim>\<open>onerror\<close>), and the handle \<^verbatim>\<open>URL.createObjectURL\<close> returns for it.
\<close>

record File =
  file_type :: string
  file_readResult :: "string option"
  file_objectURL :: string

text \<open>The promise of \<^verbatim>\<open>fileToBase64\<close>: \<open>Inl\<close> is a rejection, \<open>Inr (base64, mimeType)\<close>
  the resolved value.\<close>

definition fileToBase64 :: "File \<Rightarrow> message + (string \<times> string)" where
  "fileToBase64 file =
     (case file_readResult file of
        None \<Rightarrow> Inl ReadFailed
      | Some result \<Rightarrow>
          (let parts = split CHR '','' result;
               header = element parts 0;
               base64 = element parts 1
           in if \<not> truthy header \<or> \<not> truthy base64 then Inl InvalidFileFormat
              else
                (let mimeTypeMatch = matchMimeType (the header);
                     mimeType = (case mimeTypeMatch of Some m \<Rightarrow> m | None \<Rightarrow> file_type file)
                 in if mimeType = [] then Inl NoMimeType
                    else Inr (the base64, mimeType))))"

section \<open>geminiService: the edit request pipeline\<close>

text \<open>
  A content unit of a request or a response: \<^verbatim>\<open>{ inlineData: { data, mimeType } }\<close> or
  \<^verbatim>\<open>{ text }\<close>.
\<close>

datatype part = InlineData string string | Text string

text \<open>
  A response of the service. \<open>candidates\<close> is \<open>None\<close> when the field is absent; a
  candidate is the value of its \<^verbatim>\<open>content?.parts\<close>, \<open>None\<close> when either is absent.
\<close>

type_synonym Candidate = "part list option"

record Response =
  candidates :: "Candidate list option"

text \<open>\<^verbatim>\<open>response.candidates?.[0]?.content?.parts || []\<close>\<close>

definition responseParts :: "Response \<Rightarrow> part list" where
  "responseParts response =
     (case candidates response of
        None \<Rightarrow> []
      | Some [] \<Rightarrow> []
      | Some (None # _) \<Rightarrow> []
      | Some (Some parts # _) \<Rightarrow> parts)"

text \<open>The loop \<^verbatim>\<open>for (const part of ...) { if (part.inlineData) return part.inlineData.data; }\<close>;
  \<open>None\<close> when the loop runs to its end.\<close>

fun firstInlineData :: "part list \<Rightarrow> string option" where
  "firstInlineData [] = None"
| "firstInlineData (InlineData d m # ps) = Some d"
| "firstInlineData (Text t # ps) = firstInlineData ps"

record OriginalImage =
  img_url :: string
  img_base64 :: string
  img_mimeType :: string

text \<open>A region in percentages of the image. Its numbers are JavaScript doubles, modelled
  as real numbers throughout.\<close>

record Selection =
  sel_x :: real
  sel_y :: real
  sel_width :: real
  sel_height :: real

subsection \<open>The canvas\<close>

text \<open>
  The 2D canvas is a facility of the browser. It is modelled at pixel granularity: a raster
  of tones, where \<open>Transparent\<close> is the tone of a fresh canvas and \<open>Blended\<close> stands for any
  anti-aliased mixture at a pixel that a fill covers only in part. \<open>fillRect\<close> paints a
  pixel that lies wholly inside the rectangle with the fill style, leaves a pixel it does
  not touch as it was, and blends the others. A rectangle of negative extent is
  normalised, one of zero extent paints nothing.
\<close>

datatype tone = Transparent | Black | White | Blended

record Canvas =
  canvas_width :: nat
  canvas_height :: nat
  pixel :: "nat \<Rightarrow> nat \<Rightarrow> tone"

definition createCanvas :: "nat \<Rightarrow> nat \<Rightarrow> Canvas" where
  "createCanvas w h = \<lparr>canvas_width = w, canvas_height = h, pixel = (\<lambda>col row. Transparent)\<rparr>"

text \<open>The length that the interval from \<open>a\<close> to \<open>a + len\<close> shares with pixel \<open>i\<close>, which
  spans \<open>i\<close> to \<open>i + 1\<close>.\<close>

definition coverage :: "real \<Rightarrow> real \<Rightarrow> nat \<Rightarrow> real" where
  "coverage a len i =
     max 0 (min (max a (a + len)) (real i + 1) - max (min a (a + len)) (real i))"

definition fillRect :: "tone \<Rightarrow> real \<Rightarrow> real \<Rightarrow> real \<Rightarrow> real \<Rightarrow> Canvas \<Rightarrow> Canvas" where
  "fillRect fillStyle x y w h canvas =
     canvas\<lparr>pixel := (\<lambda>col row.
        if col < canvas_width canvas \<and> row < canvas_height canvas then
          (let cover_x = coverage x w col; cover_y = coverage y h row
           in if cover_x = 1 \<and> cover_y = 1 then fillStyle
              else if cover_x = 0 \<or> cover_y = 0 then pixel canvas col row
              else Blended)
        else pixel canvas col row)\<rparr>"

text \<open>The mask drawing of \<^verbatim>\<open>editImageWithSelection\<close>: a canvas of the image's size,
  black all over, the selection white.\<close>

definition drawMask :: "Selection \<Rightarrow> nat \<Rightarrow> nat \<Rightarrow> Canvas" where
  "drawMask selection image_width image_height =
     (let canvas = createCanvas image_width image_height;
          canvas = fillRect Black 0 0 (real (canvas_width canvas)) (real (canvas_height canvas)) canvas;
          maskX = (sel_x selection / 100) * real (canvas_width canvas);
          maskY = (sel_y selection / 100) * real (canvas_height canvas);
          maskWidth = (sel_width selection / 100) * real (canvas_width canvas);
          maskHeight = (sel_height selection / 100) * real (canvas_height canvas)
      in fillRect White maskX maskY maskWidth maskHeight canvas)"

subsection \<open>The environment\<close>

text \<open>
  What the pipeline obtains from outside the repository:
  \<^item> \<open>generateContent\<close>: the remote call \<^verbatim>\<open>ai.models.generateContent\<close> on the parts of a
    request; \<open>Inl\<close> when the promise rejects;
  \<^item> \<open>loadImage\<close>: loading a data URL into an \<^verbatim>\<open>Image\<close>; the width and height when
    \<^verbatim>\<open>onload\<close> fires, \<open>None\<close> when \<^verbatim>\<open>onerror\<close> fires;
  \<^item> \<open>getContext2d\<close>: whether \<^verbatim>\<open>canvas.getContext('2d')\<close> returns a context;
  \<^item> \<open>encodePNG\<close>: the base64 text of the PNG encoding of a canvas.
\<close>

record Env =
  generateContent :: "part list \<Rightarrow> message + Response"
  loadImage :: "string \<Rightarrow> (nat \<times> nat) option"
  getContext2d :: bool
  encodePNG :: "Canvas \<Rightarrow> string"

text \<open>\<^verbatim>\<open>canvas.toDataURL('image/png')\<close>: the browser answers \<^verbatim>\<open>data:,\<close> for a canvas without
  pixels and a base64 data URL otherwise.\<close>

definition toDataURL :: "Env \<Rightarrow> Canvas \<Rightarrow> string" where
  "toDataURL env canvas =
     (if canvas_width canvas = 0 \<or> canvas_height canvas = 0 then ''data:,''
      else ''data:image/png;base64,'' @ encodePNG env canvas)"

subsection \<open>editImageWithPrompt\<close>

text \<open>
  Each pipeline function returns the requests it sent to the service, in order, and the
  outcome of its promise: \<open>Inr\<close> the resolved base64 string, \<open>Inl\<close> the message of the
  \<^verbatim>\<open>Error\<close> it rejects with. The \<open>_try\<close> function is the body of the \<^verbatim>\<open>try\<close> block, whose
  \<open>Inl\<close> is what the block throws; the function itself adds the \<^verbatim>\<open>catch\<close> clause.
\<close>

definition extractImage :: "Response \<Rightarrow> message + string" where
  "extractImage response =
     (case firstInlineData (responseParts response) of
        Some d \<Rightarrow> Inr d
      | None \<Rightarrow> Inl NoImageGenerated)"

definition editImageWithPrompt_try ::
  "Env \<Rightarrow> string \<Rightarrow> string \<Rightarrow> string \<Rightarrow> OriginalImage option
     \<Rightarrow> part list list \<times> (message + string)" where
  "editImageWithPrompt_try env base64ImageData mimeType prompt referenceImage =
     (let contentParts = [InlineData base64ImageData mimeType];
          contentParts =
            (case referenceImage of
               None \<Rightarrow> contentParts
             | Some r \<Rightarrow> contentParts @ [InlineData (img_base64 r) (img_mimeType r)]);
          contentParts = contentParts @ [Text prompt]
      in ([contentParts],
          case generateContent env contentParts of
            Inl e \<Rightarrow> Inl e
          | Inr response \<Rightarrow> extractImage response))"

definition editImageWithPrompt ::
  "Env \<Rightarrow> string \<Rightarrow> string \<Rightarrow> string \<Rightarrow> OriginalImage option
     \<Rightarrow> part list list \<times> (message + string)" where
  "editImageWithPrompt env base64ImageData mimeType prompt referenceImage =
     (case editImageWithPrompt_try env base64ImageData mimeType prompt referenceImage of
        (sent, Inr d) \<Rightarrow> (sent, Inr d)
      | (sent, Inl e) \<Rightarrow> (sent, Inl EditFailed))"

subsection \<open>editImageWithSelection\<close>

definition maskBase64 :: "Env \<Rightarrow> Canvas \<Rightarrow> string" where
  "maskBase64 env canvas = the (element (split CHR '','' (toDataURL env canvas)) 1)"

definition editImageWithSelection_try ::
  "Env \<Rightarrow> string \<Rightarrow> string \<Rightarrow> string \<Rightarrow> Selection
     \<Rightarrow> part list list \<times> (message + string)" where
  "editImageWithSelection_try env base64ImageData mimeType prompt selection =
     (case loadImage env (''data:'' @ mimeType @ '';base64,'' @ base64ImageData) of
        None \<Rightarrow> ([], Inl ImageLoadFailed)
      | Some (image_width, image_height) \<Rightarrow>
          if \<not> getContext2d env then ([], Inl NoCanvasContext)
          else
            (let canvas = drawMask selection image_width image_height;
                 parts = [InlineData base64ImageData mimeType,
                          InlineData (maskBase64 env canvas) ''image/png'',
                          Text prompt]
             in ([parts],
                 case generateContent env parts of
                   Inl e \<Rightarrow> Inl e
                 | Inr response \<Rightarrow> extractImage response)))"

definition editImageWithSelection ::
  "Env \<Rightarrow> string \<Rightarrow> string \<Rightarrow> string \<Rightarrow> Selection
     \<Rightarrow> part list list \<times> (message + string)" where
  "editImageWithSelection env base64ImageData mimeType prompt selection =
     (case editImageWithSelection_try env base64ImageData mimeType prompt selection of
        (sent, Inr d) \<Rightarrow> (sent, Inr d)
      | (sent, Inl e) \<Rightarrow> (sent, Inl SelectionEditFailed))"

section \<open>ImageCard: the interactive region selector\<close>

text \<open>
  Numbers are JavaScript doubles. They are modelled as real numbers: rounding is not part
  of the model, nor are \<^verbatim>\<open>NaN\<close> and the infinities, which \<^verbatim>\<open>getRelativeCoords\<close>
  computes only for a surface of width or height zero. The statements about the selector
  are therefore made for surfaces of positive width and height.
\<close>

record Coords =
  coord_x :: real
  coord_y :: real

text \<open>The result of \<^verbatim>\<open>getBoundingClientRect()\<close> and the fields of a mouse event that the
  component reads.\<close>

record DOMRect =
  rect_left :: real
  rect_top :: real
  rect_width :: real
  rect_height :: real

record MouseEvent =
  clientX :: real
  clientY :: real

text \<open>The local state of the component: \<^verbatim>\<open>isDrawing\<close> and \<^verbatim>\<open>startPos\<close>.\<close>

record CardState =
  isDrawing :: bool
  startPos :: Coords

definition initialCard :: CardState where
  "initialCard = \<lparr>isDrawing = False, startPos = \<lparr>coord_x = 0, coord_y = 0\<rparr>\<rparr>"

text \<open>\<open>container\<close> is \<^verbatim>\<open>containerRef.current\<close>, given by its bounding rectangle; \<open>None\<close> when
  the reference is not set.\<close>

definition getRelativeCoords :: "DOMRect option \<Rightarrow> MouseEvent \<Rightarrow> Coords option" where
  "getRelativeCoords container e =
     (case container of
        None \<Rightarrow> None
      | Some rect \<Rightarrow>
          Some \<lparr>coord_x = max 0 (min 100 (((clientX e - rect_left rect) / rect_width rect) * 100)),
                coord_y = max 0 (min 100 (((clientY e - rect_top rect) / rect_height rect) * 100))\<rparr>)"

text \<open>
  The handlers take the properties \<^verbatim>\<open>isSelecting\<close> and \<^verbatim>\<open>onSelectionChange\<close> (whether
  the callback is given) and return the new local state with the region passed to
  \<^verbatim>\<open>onSelectionChange\<close>, \<open>None\<close> when the callback is not called.
\<close>

definition handleMouseDown ::
  "bool \<Rightarrow> bool \<Rightarrow> DOMRect option \<Rightarrow> CardState \<Rightarrow> MouseEvent \<Rightarrow> CardState \<times> Selection option" where
  "handleMouseDown isSelecting onSelectionChange container state e =
     (if \<not> isSelecting \<or> \<not> onSelectionChange then (state, None)
      else
        (case getRelativeCoords container e of
           None \<Rightarrow> (state, None)
         | Some coords \<Rightarrow>
             (state\<lparr>isDrawing := True, startPos := coords\<rparr>,
              Some \<lparr>sel_x = coord_x coords, sel_y = coord_y coords, sel_width = 0, sel_height = 0\<rparr>)))"

definition handleMouseMove ::
  "bool \<Rightarrow> DOMRect option \<Rightarrow> CardState \<Rightarrow> MouseEvent \<Rightarrow> CardState \<times> Selection option" where
  "handleMouseMove onSelectionChange container state e =
     (if \<not> isDrawing state \<or> \<not> onSelectionChange then (state, None)
      else
        (case getRelativeCoords container e of
           None \<Rightarrow> (state, None)
         | Some currentCoords \<Rightarrow>
             (let x = min (coord_x (startPos state)) (coord_x currentCoords);
                  y = min (coord_y (startPos state)) (coord_y currentCoords);
                  width = \<bar>coord_x (startPos state) - coord_x currentCoords\<bar>;
                  height = \<bar>coord_y (startPos state) - coord_y currentCoords\<bar>
              in (state, Some \<lparr>sel_x = x, sel_y = y, sel_width = width, sel_height = height\<rparr>))))"

definition handleMouseUp :: "CardState \<Rightarrow> CardState" where
  "handleMouseUp state = state\<lparr>isDrawing := False\<rparr>"

text \<open>The pointer events bound on the surface; \<^verbatim>\<open>onMouseLeave\<close> is bound to
  \<^verbatim>\<open>handleMouseUp\<close> as well. Each carries the rectangle of the surface at its time.\<close>

datatype pointer_event =
    MouseDown "DOMRect option" MouseEvent
  | MouseMove "DOMRect option" MouseEvent
  | MouseUp
  | MouseLeave

fun dispatchPointer ::
  "bool \<Rightarrow> bool \<Rightarrow> CardState \<Rightarrow> pointer_event \<Rightarrow> CardState \<times> Selection option" where
  "dispatchPointer isSelecting onSelectionChange state (MouseDown container e) =
     handleMouseDown isSelecting onSelectionChange container state e"
| "dispatchPointer isSelecting onSelectionChange state (MouseMove container e) =
     handleMouseMove onSelectionChange container state e"
| "dispatchPointer isSelecting onSelectionChange state MouseUp = (handleMouseUp state, None)"
| "dispatchPointer isSelecting onSelectionChange state MouseLeave = (handleMouseUp state, None)"

text \<open>A gesture: the regions passed to \<^verbatim>\<open>onSelectionChange\<close> over a sequence of events, in
  order.\<close>

fun regionsProduced ::
  "bool \<Rightarrow> bool \<Rightarrow> CardState \<Rightarrow> pointer_event list \<Rightarrow> Selection list" where
  "regionsProduced isSelecting onSelectionChange state [] = []"
| "regionsProduced isSelecting onSelectionChange state (ev # evs) =
     (case dispatchPointer isSelecting onSelectionChange state ev of
        (state', None) \<Rightarrow> regionsProduced isSelecting onSelectionChange state' evs
      | (state', Some region) \<Rightarrow> region # regionsProduced isSelecting onSelectionChange state' evs)"

text \<open>The surface of an event is not degenerate.\<close>

fun onProperSurface :: "pointer_event \<Rightarrow> bool" where
  "onProperSurface (MouseDown container e) =
     (case container of None \<Rightarrow> True | Some rect \<Rightarrow> 0 < rect_width rect \<and> 0 < rect_height rect)"
| "onProperSurface (MouseMove container e) =
     (case container of None \<Rightarrow> True | Some rect \<Rightarrow> 0 < rect_width rect \<and> 0 < rect_height rect)"
| "onProperSurface MouseUp = True"
| "onProperSurface MouseLeave = True"

text \<open>The invariant the specification gives for a normalized region.\<close>

definition withinBounds :: "Selection \<Rightarrow> bool" where
  "withinBounds region =
     (0 \<le> sel_width region \<and> 0 \<le> sel_height region
      \<and> sel_x region + sel_width region \<le> 100 \<and> sel_y region + sel_height region \<le> 100)"

section \<open>App: the interaction state controller\<close>

text \<open>The state variables of the \<^verbatim>\<open>App\<close> component.\<close>

record AppState =
  originalImage :: "OriginalImage option"
  referenceImage :: "OriginalImage option"
  editedImage :: "string option"
  prompt :: string
  inpaintPrompt :: string
  isLoading :: bool
  error :: "message option"
  isSelecting :: bool
  selection :: "Selection option"

definition initialApp :: AppState where
  "initialApp =
     \<lparr>originalImage = None, referenceImage = None, editedImage = None, prompt = [],
      inpaintPrompt = [], isLoading = False, error = None, isSelecting = False,
      selection = None\<rparr>"

text \<open>
  An asynchronous handler runs in two steps. Its \<open>_start\<close> function is the part up to the
  \<^verbatim>\<open>await\<close>: it returns the state after the updates made so far and the operation awaited,
  \<open>None\<close> when the handler returns before. Its \<open>_finish\<close> function is the part after the
  \<^verbatim>\<open>await\<close>, applied to the state of that later moment and the outcome of the operation.
  The function without suffix runs both steps with nothing in between.
\<close>

subsection \<open>handleImageUpload\<close>

definition handleImageUpload_start :: "File option \<Rightarrow> AppState \<Rightarrow> AppState \<times> File option" where
  "handleImageUpload_start files0 s =
     (case files0 of
        None \<Rightarrow> (s, None)
      | Some file \<Rightarrow>
          if \<not> startsWith (file_type file) ''image/'' then (s\<lparr>error := Some InvalidFileType\<rparr>, None)
          else
            (s\<lparr>error := None, editedImage := None, isSelecting := False, selection := None\<rparr>,
             Some file))"

definition handleImageUpload_finish :: "File \<Rightarrow> message + (string \<times> string) \<Rightarrow> AppState \<Rightarrow> AppState" where
  "handleImageUpload_finish file outcome s =
     (case outcome of
        Inr (base64, mimeType) \<Rightarrow>
          s\<lparr>originalImage :=
              Some \<lparr>img_url = file_objectURL file, img_base64 = base64, img_mimeType = mimeType\<rparr>\<rparr>
      | Inl err \<Rightarrow> s\<lparr>error := Some UploadFailed\<rparr>)"

definition handleImageUpload :: "File option \<Rightarrow> AppState \<Rightarrow> AppState" where
  "handleImageUpload files0 s =
     (case handleImageUpload_start files0 s of
        (s', None) \<Rightarrow> s'
      | (s', Some file) \<Rightarrow> handleImageUpload_finish file (fileToBase64 file) s')"

subsection \<open>The calls into the pipeline\<close>

datatype pipeline_call =
    EditWithPrompt string string string "OriginalImage option"
  | EditWithSelection string string string Selection

fun runCall :: "Env \<Rightarrow> pipeline_call \<Rightarrow> part list list \<times> (message + string)" where
  "runCall env (EditWithPrompt base64 mimeType finalPrompt reference) =
     editImageWithPrompt env base64 mimeType finalPrompt reference"
| "runCall env (EditWithSelection base64 mimeType text region) =
     editImageWithSelection env base64 mimeType text region"

text \<open>The template \<^verbatim>\<open>`data:image/png;base64,${newImageBase64}`\<close> of both handlers.\<close>

definition pngDataURL :: "string \<Rightarrow> string" where
  "pngDataURL newImageBase64 = ''data:image/png;base64,'' @ newImageBase64"

subsection \<open>handleEditRequest\<close>

definition handleEditRequest_start :: "AppState \<Rightarrow> AppState \<times> pipeline_call option" where
  "handleEditRequest_start s =
     (if originalImage s = None \<or> trim (prompt s) = []
      then (s\<lparr>error := Some MissingImageOrPrompt\<rparr>, None)
      else
        (let original = the (originalImage s);
             finalPrompt = trim (prompt s)
         in (s\<lparr>isLoading := True, error := None, editedImage := None, isSelecting := False,
               selection := None\<rparr>,
             Some (EditWithPrompt (img_base64 original) (img_mimeType original) finalPrompt
                     (referenceImage s)))))"

definition handleEditRequest_finish :: "message + string \<Rightarrow> AppState \<Rightarrow> AppState" where
  "handleEditRequest_finish outcome s =
     (case outcome of
        Inr newImageBase64 \<Rightarrow> s\<lparr>editedImage := Some (pngDataURL newImageBase64)\<rparr>
      | Inl errorMessage \<Rightarrow> s\<lparr>error := Some errorMessage\<rparr>)\<lparr>isLoading := False\<rparr>"

definition handleEditRequest :: "Env \<Rightarrow> AppState \<Rightarrow> AppState \<times> part list list" where
  "handleEditRequest env s =
     (case handleEditRequest_start s of
        (s', None) \<Rightarrow> (s', [])
      | (s', Some call) \<Rightarrow>
          (case runCall env call of
             (sent, outcome) \<Rightarrow> (handleEditRequest_finish outcome s', sent)))"

subsection \<open>handleInpaintRequest\<close>

definition handleInpaintRequest_start :: "AppState \<Rightarrow> AppState \<times> pipeline_call option" where
  "handleInpaintRequest_start s =
     (if \<not> truthy (editedImage s) \<or> selection s = None \<or> trim (inpaintPrompt s) = []
      then (s\<lparr>error := Some MissingSelectionOrPrompt\<rparr>, None)
      else
        (let s' = s\<lparr>isLoading := True, error := None\<rparr>;
             parts = split CHR '','' (the (editedImage s));
             header = the (element parts 0);
             base64 = element parts 1;
             mimeTypeMatch = matchMimeType header
         in if \<not> truthy base64 \<or> mimeTypeMatch = None
            then (s'\<lparr>error := Some EditedImageUnreadable, isLoading := False\<rparr>, None)
            else
              (let mimeType = the mimeTypeMatch
               in (s', Some (EditWithSelection (the base64) mimeType (inpaintPrompt s)
                               (the (selection s)))))))"

definition handleInpaintRequest_finish :: "message + string \<Rightarrow> AppState \<Rightarrow> AppState" where
  "handleInpaintRequest_finish outcome s =
     (case outcome of
        Inr newImageBase64 \<Rightarrow>
          s\<lparr>editedImage := Some (pngDataURL newImageBase64), isSelecting := False,
            selection := None, inpaintPrompt := []\<rparr>
      | Inl errorMessage \<Rightarrow> s\<lparr>error := Some errorMessage\<rparr>)\<lparr>isLoading := False\<rparr>"

definition handleInpaintRequest :: "Env \<Rightarrow> AppState \<Rightarrow> AppState \<times> part list list" where
  "handleInpaintRequest env s =
     (case handleInpaintRequest_start s of
        (s', None) \<Rightarrow> (s', [])
      | (s', Some call) \<Rightarrow>
          (case runCall env call of
             (sent, outcome) \<Rightarrow> (handleInpaintRequest_finish outcome s', sent)))"

subsection \<open>The submit controls as rendered\<close>

text \<open>
  A click reaches a handler only through a button that is rendered and not disabled.
  The button of \<^verbatim>\<open>handleEditRequest\<close> is rendered by \<^verbatim>\<open>App\<close> with
  \<^verbatim>\<open>disabled={isLoading || !originalImage || !prompt}\<close>. The button of
  \<^verbatim>\<open>handleInpaintRequest\<close> is rendered by the card of the edited image, inside the
  actions shown when \<^verbatim>\<open>imageUrl && !isLoading\<close>, in the branch taken when
  \<^verbatim>\<open>isSelecting && selection && selection.width > 0 && selection.height > 0\<close>, with
  \<^verbatim>\<open>disabled={isLoading || !inpaintPrompt?.trim()}\<close>.
\<close>

definition generateDisabled :: "AppState \<Rightarrow> bool" where
  "generateDisabled s = (isLoading s \<or> originalImage s = None \<or> prompt s = [])"

definition clickGenerate :: "AppState \<Rightarrow> AppState \<times> pipeline_call option" where
  "clickGenerate s = (if generateDisabled s then (s, None) else handleEditRequest_start s)"

definition showActions :: "AppState \<Rightarrow> bool" where
  "showActions s = (truthy (editedImage s) \<and> \<not> isLoading s)"

definition inpaintFormShown :: "AppState \<Rightarrow> bool" where
  "inpaintFormShown s =
     (showActions s \<and> isSelecting s \<and>
      (case selection s of
         None \<Rightarrow> False
       | Some region \<Rightarrow> sel_width region > 0 \<and> sel_height region > 0))"

definition inpaintDisabled :: "AppState \<Rightarrow> bool" where
  "inpaintDisabled s = (isLoading s \<or> trim (inpaintPrompt s) = [])"

definition clickInpaintGenerate :: "AppState \<Rightarrow> AppState \<times> pipeline_call option" where
  "clickInpaintGenerate s =
     (if inpaintFormShown s \<and> \<not> inpaintDisabled s then handleInpaintRequest_start s
      else (s, None))"

text \<open>The region of the specification's edge case: width or height zero.\<close>

definition degenerate :: "Selection \<Rightarrow> bool" where
  "degenerate region = (sel_width region = 0 \<or> sel_height region = 0)"

section \<open>The claims' own readings\<close>

text \<open>
  \<open>fileToBase64_asClaimed\<close> follows the words of the specification, not the code: the
  format tag is the resource's declared MIME type, and the header of the read result is
  parsed only when the resource declares none; the operation fails when the read result
  has no header or no payload segment, or when neither source gives a MIME type.
\<close>

definition fileToBase64_asClaimed :: "File \<Rightarrow> message + (string \<times> string)" where
  "fileToBase64_asClaimed file =
     (case file_readResult file of
        None \<Rightarrow> Inl ReadFailed
      | Some result \<Rightarrow>
          (let parts = split CHR '','' result;
               header = element parts 0;
               base64 = element parts 1
           in if \<not> truthy header \<or> \<not> truthy base64 then Inl InvalidFileFormat
              else
                (let formatTag =
                       (if file_type file \<noteq> [] then file_type file
                        else (case matchMimeType (the header) of Some m \<Rightarrow> m | None \<Rightarrow> []))
                 in if formatTag = [] then Inl NoMimeType
                    else Inr (the base64, formatTag))))"

text \<open>
  \<open>clampedPercent\<close> follows the words of the specification for the selector: a pointer
  position is converted to a percentage of the surface and clamped to the range from 0
  to 100.
\<close>

definition clampedPercent :: "real \<Rightarrow> real \<Rightarrow> real \<Rightarrow> real" where
  "clampedPercent position origin extent =
     (let percent = (position - origin) / extent * 100
      in if percent < 0 then 0 else if 100 < percent then 100 else percent)"

section \<open>Auxiliary notions\<close>

text \<open>The anchor of a drag lies on the surface.\<close>

definition anchorInRange :: "CardState \<Rightarrow> bool" where
  "anchorInRange state =
     (0 \<le> coord_x (startPos state) \<and> coord_x (startPos state) \<le> 100
      \<and> 0 \<le> coord_y (startPos state) \<and> coord_y (startPos state) \<le> 100)"

text \<open>A content unit that is not image-typed.\<close>

fun isText :: "part \<Rightarrow> bool" where
  "isText (Text t) = True"
| "isText (InlineData d m) = False"

section \<open>Example inputs\<close>

text \<open>A surface of 200 by 100 pixels at (10, 20), and a drag anchored at its centre that
  visits the four diagonal directions and then leaves the surface.\<close>

definition exampleSurface :: DOMRect where
  "exampleSurface = \<lparr>rect_left = 10, rect_top = 20, rect_width = 200, rect_height = 100\<rparr>"

definition diagonalDrag :: "pointer_event list" where
  "diagonalDrag =
     [MouseDown (Some exampleSurface) \<lparr>clientX = 110, clientY = 70\<rparr>,
      MouseMove (Some exampleSurface) \<lparr>clientX = 160, clientY = 95\<rparr>,
      MouseMove (Some exampleSurface) \<lparr>clientX = 60, clientY = 95\<rparr>,
      MouseMove (Some exampleSurface) \<lparr>clientX = 60, clientY = 45\<rparr>,
      MouseMove (Some exampleSurface) \<lparr>clientX = 160, clientY = 45\<rparr>,
      MouseMove (Some exampleSurface) \<lparr>clientX = 500, clientY = - 45\<rparr>,
      MouseUp]"

text \<open>A response without an image, as the service gives when it declines, and a response
  whose image is declared a JPEG.\<close>

definition declinedResponse :: Response where
  "declinedResponse = \<lparr>candidates = Some [Some [Text ''blocked'']]\<rparr>"

definition jpegResponse :: Response where
  "jpegResponse = \<lparr>candidates = Some [Some [Text ''done'', InlineData ''BBBB'' ''image/jpeg'']]\<rparr>"

text \<open>An environment whose service always answers with the given response, whose images
  load with 100 by 100 pixels and whose canvas works.\<close>

definition exampleEnv :: "Response \<Rightarrow> Env" where
  "exampleEnv response =
     \<lparr>generateContent = (\<lambda>parts. Inr response),
      loadImage = (\<lambda>dataURL. Some (100, 100)),
      getContext2d = True,
      encodePNG = (\<lambda>canvas. ''MASK'')\<rparr>"

definition examplePhoto :: OriginalImage where
  "examplePhoto = \<lparr>img_url = ''blob:1'', img_base64 = ''AAAA'', img_mimeType = ''image/jpeg''\<rparr>"

text \<open>A state ready for a whole-image edit and for a region edit alike.\<close>

definition readyState :: AppState where
  "readyState =
     \<lparr>originalImage = Some examplePhoto, referenceImage = None,
      editedImage = Some ''data:image/png;base64,CCCC'', prompt = ''brighter'',
      inpaintPrompt = ''blue sky'', isLoading = False, error = None, isSelecting = True,
      selection = Some \<lparr>sel_x = 25, sel_y = 25, sel_width = 50, sel_height = 50\<rparr>\<rparr>"

text \<open>The same state while an edit is in flight, and the same state with a region of
  width and height zero, as a mouse press without movement leaves it.\<close>

definition loadingState :: AppState where
  "loadingState = readyState\<lparr>isLoading := True\<rparr>"

definition degenerateState :: AppState where
  "degenerateState =
     readyState\<lparr>selection := Some \<lparr>sel_x = 10, sel_y = 10, sel_width = 0, sel_height = 0\<rparr>\<rparr>"

definition svgFile :: File where
  "svgFile =
     \<lparr>file_type = ''image/svg+xml;charset=utf-8'',
      file_readResult = Some ''data:image/svg+xml;charset=utf-8;base64,AAAA'',
      file_objectURL = ''blob:1''\<rparr>"

section \<open>Properties of the string functions\<close>

lemma split_nonempty: "split sep s \<noteq> []"
  by (induction s) (auto split: list.splits)

lemma split_first: "element (split sep s) 0 = Some (takeWhile (\<lambda>c. c \<noteq> sep) s)"
  by (induction s) (auto simp: element_def split: list.splits)

lemma split_unfold:
  "split sep s =
     takeWhile (\<lambda>c. c \<noteq> sep) s #
       (if sep \<in> set s then split sep (tl (dropWhile (\<lambda>c. c \<noteq> sep) s)) else [])"
  by (induction s) (auto split: list.splits)

lemma split_second:
  "element (split sep s) (Suc 0) =
     (if sep \<in> set s
      then Some (takeWhile (\<lambda>c. c \<noteq> sep) (tl (dropWhile (\<lambda>c. c \<noteq> sep) s)))
      else None)"
proof (cases "sep \<in> set s")
  case True
  have "split sep s = takeWhile (\<lambda>c. c \<noteq> sep) s # split sep (tl (dropWhile (\<lambda>c. c \<noteq> sep) s))"
    using True split_unfold[of sep s] by simp
  moreover obtain rest where
    "split sep (tl (dropWhile (\<lambda>c. c \<noteq> sep) s)) =
       takeWhile (\<lambda>c. c \<noteq> sep) (tl (dropWhile (\<lambda>c. c \<noteq> sep) s)) # rest"
    using split_unfold[of sep "tl (dropWhile (\<lambda>c. c \<noteq> sep) s)"] by blast
  ultimately show ?thesis
    using True by (simp add: element_def)
next
  case False
  then have "split sep s = [takeWhile (\<lambda>c. c \<noteq> sep) s]"
    using split_unfold[of sep s] by simp
  with False show ?thesis
    by (simp add: element_def)
qed

text \<open>The match of \<^verbatim>\<open>/:(.*?);/\<close> starts at the leftmost colon and captures up to the
  next semicolon, when no line terminator stands in between.\<close>

lemma lazyUntilSemicolon_found:
  "CHR '';'' \<notin> set m \<Longrightarrow> \<forall>c\<in>set m. \<not> isLineTerminator c \<Longrightarrow>
   lazyUntilSemicolon (m @ CHR '';'' # post) = Some m"
  by (induction m) auto

lemma matchMimeType_leftmost:
  "CHR '':'' \<notin> set pre \<Longrightarrow> CHR '';'' \<notin> set m \<Longrightarrow> \<forall>c\<in>set m. \<not> isLineTerminator c \<Longrightarrow>
   matchMimeType (pre @ CHR '':'' # m @ CHR '';'' # post) = Some m"
  by (induction pre) (auto simp: lazyUntilSemicolon_found)

lemma matchMimeType_no_colon: "CHR '':'' \<notin> set s \<Longrightarrow> matchMimeType s = None"
  by (induction s) auto

section \<open>fileToBase64\<close>

text \<open>
  Claim C9, as the code has it. For a file that can be read, the header is the text of
  the read result before its first comma and the payload the text between the first
  comma and the second (or the end). The format tag is what \<^verbatim>\<open>/:(.*?);/\<close> captures in the
  header; the declared MIME type of the file is used only when the header has no match.
  The promise rejects exactly when the header or the payload is empty or missing, or
  when the format tag so chosen is empty; otherwise it resolves with the payload and
  that format tag.
\<close>

theorem fileToBase64_header_first:
  assumes "file_readResult file = Some result"
  shows "fileToBase64 file =
     (let header = takeWhile (\<lambda>c. c \<noteq> CHR '','') result;
          payload = takeWhile (\<lambda>c. c \<noteq> CHR '','') (tl (dropWhile (\<lambda>c. c \<noteq> CHR '','') result));
          formatTag = (case matchMimeType header of Some m \<Rightarrow> m | None \<Rightarrow> file_type file)
      in if header = [] \<or> payload = [] then Inl InvalidFileFormat
         else if formatTag = [] then Inl NoMimeType
         else Inr (payload, formatTag))"
proof (cases "CHR '','' \<in> set result")
  case True
  with assms show ?thesis
    by (simp add: fileToBase64_def Let_def split_first split_second truthy_def split: option.splits)
next
  case False
  then have "dropWhile (\<lambda>c. c \<noteq> CHR '','') result = []"
    by auto
  with assms False show ?thesis
    by (simp add: fileToBase64_def Let_def split_first split_second truthy_def del: dropWhile_eq_Nil_conv)
qed

theorem fileToBase64_header_first_witness:
  "file_readResult \<lparr>file_type = ''image/svg+xml;charset=utf-8'',
       file_readResult = Some ''data:image/svg+xml;charset=utf-8;base64,AAAA'',
       file_objectURL = ''blob:1''\<rparr> = Some ''data:image/svg+xml;charset=utf-8;base64,AAAA''
   \<and> fileToBase64 \<lparr>file_type = ''image/svg+xml;charset=utf-8'',
       file_readResult = Some ''data:image/svg+xml;charset=utf-8;base64,AAAA'',
       file_objectURL = ''blob:1''\<rparr> = Inr (''AAAA'', ''image/svg+xml'')"
  using fileToBase64_header_first[of "\<lparr>file_type = ''image/svg+xml;charset=utf-8'',
       file_readResult = Some ''data:image/svg+xml;charset=utf-8;base64,AAAA'',
       file_objectURL = ''blob:1''\<rparr>" "''data:image/svg+xml;charset=utf-8;base64,AAAA''"]
  by (simp add: isLineTerminator_def)

text \<open>
  Claim C9 as it is written does not hold: a file that declares the MIME type
  \<^verbatim>\<open>image/svg+xml;charset=utf-8\<close> and is read as a data URL of that type resolves with the
  format tag \<^verbatim>\<open>image/svg+xml\<close> taken from the header, where the claim gives the declared
  type.
\<close>

theorem fileToBase64_declared_first_counterexample:
  "fileToBase64 \<lparr>file_type = ''image/svg+xml;charset=utf-8'',
       file_readResult = Some ''data:image/svg+xml;charset=utf-8;base64,AAAA'',
       file_objectURL = ''blob:1''\<rparr> = Inr (''AAAA'', ''image/svg+xml'')
   \<and> fileToBase64_asClaimed \<lparr>file_type = ''image/svg+xml;charset=utf-8'',
       file_readResult = Some ''data:image/svg+xml;charset=utf-8;base64,AAAA'',
       file_objectURL = ''blob:1''\<rparr> = Inr (''AAAA'', ''image/svg+xml;charset=utf-8'')"
  by (simp add: fileToBase64_def fileToBase64_asClaimed_def element_def truthy_def isLineTerminator_def)

section \<open>The region selector\<close>

lemma getRelativeCoords_range:
  "getRelativeCoords container e = Some coords \<Longrightarrow>
   0 \<le> coord_x coords \<and> coord_x coords \<le> 100 \<and> 0 \<le> coord_y coords \<and> coord_y coords \<le> 100"
  by (auto simp: getRelativeCoords_def split: option.splits)

lemma getRelativeCoords_clampedPercent:
  "getRelativeCoords (Some rect) e =
     Some \<lparr>coord_x = clampedPercent (clientX e) (rect_left rect) (rect_width rect),
           coord_y = clampedPercent (clientY e) (rect_top rect) (rect_height rect)\<rparr>"
  by (simp add: getRelativeCoords_def clampedPercent_def Let_def min_def max_def)

lemma min_abs_within:
  fixes a c :: real
  assumes "0 \<le> a" "a \<le> 100" "0 \<le> c" "c \<le> 100"
  shows "0 \<le> \<bar>a - c\<bar> \<and> min a c + \<bar>a - c\<bar> \<le> 100 \<and> 0 \<le> min a c"
  using assms by (auto simp: min_def abs_if)

text \<open>Every handler keeps the anchor on the surface.\<close>

lemma dispatchPointer_anchor:
  assumes "anchorInRange state" "dispatchPointer selecting callback state ev = (state', out)"
  shows "anchorInRange state'"
proof (cases ev)
  case (MouseDown container e)
  with assms show ?thesis
    using getRelativeCoords_range[of container e]
    by (auto simp: handleMouseDown_def anchorInRange_def split: if_splits option.splits)
next
  case (MouseMove container e)
  with assms show ?thesis
    by (auto simp: handleMouseMove_def Let_def split: if_splits option.splits)
next
  case MouseUp
  with assms show ?thesis by (auto simp: handleMouseUp_def anchorInRange_def)
next
  case MouseLeave
  with assms show ?thesis by (auto simp: handleMouseUp_def anchorInRange_def)
qed

lemma dispatchPointer_region:
  assumes "anchorInRange state" "dispatchPointer selecting callback state ev = (state', Some region)"
  shows "withinBounds region"
proof (cases ev)
  case (MouseDown container e)
  with assms show ?thesis
    using getRelativeCoords_range[of container e]
    by (auto simp: handleMouseDown_def withinBounds_def split: if_splits option.splits)
next
  case (MouseMove container e)
  with assms obtain cur where cur: "getRelativeCoords container e = Some cur"
    and region: "region = \<lparr>sel_x = min (coord_x (startPos state)) (coord_x cur),
        sel_y = min (coord_y (startPos state)) (coord_y cur),
        sel_width = \<bar>coord_x (startPos state) - coord_x cur\<bar>,
        sel_height = \<bar>coord_y (startPos state) - coord_y cur\<bar>\<rparr>"
    by (auto simp: handleMouseMove_def Let_def split: if_splits option.splits)
  from getRelativeCoords_range[OF cur] assms(1) show ?thesis
    unfolding region withinBounds_def anchorInRange_def
    using min_abs_within[of "coord_x (startPos state)" "coord_x cur"]
          min_abs_within[of "coord_y (startPos state)" "coord_y cur"]
    by simp
next
  case MouseUp
  with assms show ?thesis by simp
next
  case MouseLeave
  with assms show ?thesis by simp
qed

lemma regionsProduced_invariant:
  "anchorInRange state \<Longrightarrow> region \<in> set (regionsProduced selecting callback state evs) \<Longrightarrow>
   withinBounds region"
proof (induction evs arbitrary: state)
  case Nil
  then show ?case by simp
next
  case (Cons ev evs)
  obtain state' out where step: "dispatchPointer selecting callback state ev = (state', out)"
    by (cases "dispatchPointer selecting callback state ev")
  have inv: "anchorInRange state'"
    using dispatchPointer_anchor[OF Cons.prems(1) step] .
  show ?case
  proof (cases out)
    case None
    with Cons.prems(2) step have "region \<in> set (regionsProduced selecting callback state' evs)"
      by simp
    then show ?thesis using Cons.IH[OF inv] by simp
  next
    case (Some r)
    with Cons.prems(2) step
    have "region = r \<or> region \<in> set (regionsProduced selecting callback state' evs)"
      by simp
    then show ?thesis
      using Cons.IH[OF inv] dispatchPointer_region[OF Cons.prems(1)] step Some by auto
  qed
qed

text \<open>
  Claim C4. Over any sequence of pointer events on surfaces of positive width and height,
  starting from the component's initial state, every region the selector passes on has
  width and height at least 0 and ends at or before 100 on both axes. A drag (a press
  followed by moves in any direction, to any pointer position) is such a sequence.
  Coordinates are exact reals here; the rounding of doubles is not modelled.
\<close>

theorem drag_regions_withinBounds:
  assumes "\<forall>ev\<in>set evs. onProperSurface ev"
  shows "\<forall>region\<in>set (regionsProduced selecting callback initialCard evs).
           0 \<le> sel_width region \<and> 0 \<le> sel_height region
           \<and> sel_x region + sel_width region \<le> 100 \<and> sel_y region + sel_height region \<le> 100"
  using regionsProduced_invariant[of initialCard _ selecting callback evs]
  by (auto simp: anchorInRange_def initialCard_def withinBounds_def)

theorem drag_regions_withinBounds_witness:
  "list_all onProperSurface diagonalDrag
   \<and> regionsProduced True True initialCard diagonalDrag =
       [\<lparr>sel_x = 50, sel_y = 50, sel_width = 0, sel_height = 0\<rparr>,
        \<lparr>sel_x = 50, sel_y = 50, sel_width = 25, sel_height = 25\<rparr>,
        \<lparr>sel_x = 25, sel_y = 50, sel_width = 25, sel_height = 25\<rparr>,
        \<lparr>sel_x = 25, sel_y = 25, sel_width = 25, sel_height = 25\<rparr>,
        \<lparr>sel_x = 50, sel_y = 25, sel_width = 25, sel_height = 25\<rparr>,
        \<lparr>sel_x = 50, sel_y = 0, sel_width = 50, sel_height = 50\<rparr>]
   \<and> list_all withinBounds (regionsProduced True True initialCard diagonalDrag)"
proof -
  have proper: "\<forall>ev\<in>set diagonalDrag. onProperSurface ev"
    by (simp add: diagonalDrag_def exampleSurface_def)
  have regions: "regionsProduced True True initialCard diagonalDrag =
       [\<lparr>sel_x = 50, sel_y = 50, sel_width = 0, sel_height = 0\<rparr>,
        \<lparr>sel_x = 50, sel_y = 50, sel_width = 25, sel_height = 25\<rparr>,
        \<lparr>sel_x = 25, sel_y = 50, sel_width = 25, sel_height = 25\<rparr>,
        \<lparr>sel_x = 25, sel_y = 25, sel_width = 25, sel_height = 25\<rparr>,
        \<lparr>sel_x = 50, sel_y = 25, sel_width = 25, sel_height = 25\<rparr>,
        \<lparr>sel_x = 50, sel_y = 0, sel_width = 50, sel_height = 50\<rparr>]"
    by (simp add: diagonalDrag_def exampleSurface_def initialCard_def handleMouseDown_def
        handleMouseMove_def handleMouseUp_def getRelativeCoords_def Let_def)
  from drag_regions_withinBounds[OF proper, of True True]
  have "list_all withinBounds (regionsProduced True True initialCard diagonalDrag)"
    unfolding withinBounds_def list_all_iff .
  with proper regions show ?thesis
    by (simp add: list_all_iff)
qed

text \<open>
  Claim C5. While a drag is under way on a surface of positive width and height, a move
  converts the pointer position to percentages of the surface, each clamped to the range
  from 0 to 100, and passes on the region whose corner is the minimum of anchor and
  current position on each axis and whose extents are the absolute differences.
\<close>

theorem handleMouseMove_min_abs:
  assumes "isDrawing state" and "0 < rect_width rect" and "0 < rect_height rect"
  shows "handleMouseMove True (Some rect) state e =
     (let anchor = startPos state;
          current_x = clampedPercent (clientX e) (rect_left rect) (rect_width rect);
          current_y = clampedPercent (clientY e) (rect_top rect) (rect_height rect)
      in (state, Some \<lparr>sel_x = min (coord_x anchor) current_x,
                        sel_y = min (coord_y anchor) current_y,
                        sel_width = \<bar>coord_x anchor - current_x\<bar>,
                        sel_height = \<bar>coord_y anchor - current_y\<bar>\<rparr>))"
  using assms
  by (simp add: handleMouseMove_def getRelativeCoords_clampedPercent Let_def)

theorem handleMouseMove_min_abs_witness:
  "isDrawing \<lparr>isDrawing = True, startPos = \<lparr>coord_x = 50, coord_y = 50\<rparr>\<rparr>
   \<and> 0 < rect_width exampleSurface \<and> 0 < rect_height exampleSurface
   \<and> handleMouseMove True (Some exampleSurface)
        \<lparr>isDrawing = True, startPos = \<lparr>coord_x = 50, coord_y = 50\<rparr>\<rparr>
        \<lparr>clientX = 60, clientY = 500\<rparr> =
       (\<lparr>isDrawing = True, startPos = \<lparr>coord_x = 50, coord_y = 50\<rparr>\<rparr>,
        Some \<lparr>sel_x = 25, sel_y = 50, sel_width = 25, sel_height = 50\<rparr>)"
proof -
  have drawing: "isDrawing \<lparr>isDrawing = True, startPos = \<lparr>coord_x = 50, coord_y = 50\<rparr>\<rparr>"
    by simp
  have wide: "0 < rect_width exampleSurface" and high: "0 < rect_height exampleSurface"
    by (simp_all add: exampleSurface_def)
  from handleMouseMove_min_abs[OF drawing wide high, of "\<lparr>clientX = 60, clientY = 500\<rparr>"]
  show ?thesis
    using wide high by (simp add: clampedPercent_def exampleSurface_def Let_def)
qed

section \<open>The mask\<close>




lemma drawMask_size:
  "canvas_width (drawMask region w h) = w \<and> canvas_height (drawMask region w h) = h"
  by (simp add: drawMask_def Let_def fillRect_def createCanvas_def)










section \<open>The pipeline\<close>

lemma firstInlineData_texts:
  "list_all isText texts \<Longrightarrow> firstInlineData (texts @ ps) = firstInlineData ps"
proof (induction texts)
  case Nil
  then show ?case by simp
next
  case (Cons p texts)
  then show ?case by (cases p) auto
qed

text \<open>The scan returns the payload of the first image-typed unit, whatever format that
  unit declares.\<close>

lemma firstInlineData_first:
  "list_all isText texts \<Longrightarrow> firstInlineData (texts @ InlineData d m # rest) = Some d"
  by (simp add: firstInlineData_texts)

lemma firstInlineData_none: "firstInlineData ps = None \<longleftrightarrow> list_all isText ps"
proof (induction ps)
  case Nil
  then show ?case by simp
next
  case (Cons p ps)
  then show ?case by (cases p) auto
qed

lemma extractImage_first:
  "responseParts response = texts @ InlineData d m # rest \<Longrightarrow> list_all isText texts \<Longrightarrow>
   extractImage response = Inr d"
  by (simp add: extractImage_def firstInlineData_first)

lemma editImageWithPrompt_sent:
  "fst (editImageWithPrompt env base64 mimeType instruction reference) =
     [InlineData base64 mimeType #
        (case reference of
           None \<Rightarrow> []
         | Some r \<Rightarrow> [InlineData (img_base64 r) (img_mimeType r)]) @
        [Text instruction]]"
  by (simp add: editImageWithPrompt_def editImageWithPrompt_try_def Let_def
      split: option.splits sum.splits)

lemma editImageWithPrompt_outcome:
  "snd (editImageWithPrompt env base64 mimeType instruction reference) =
     (case generateContent env
             (InlineData base64 mimeType #
                (case reference of
                   None \<Rightarrow> []
                 | Some r \<Rightarrow> [InlineData (img_base64 r) (img_mimeType r)]) @
                [Text instruction]) of
        Inl e \<Rightarrow> Inl EditFailed
      | Inr response \<Rightarrow>
          (case firstInlineData (responseParts response) of
             Some d \<Rightarrow> Inr d
           | None \<Rightarrow> Inl EditFailed))"
  by (simp add: editImageWithPrompt_def editImageWithPrompt_try_def Let_def
      extractImage_def split: option.splits sum.splits)

lemma editImageWithSelection_sent:
  "fst (editImageWithSelection env base64 mimeType instruction region) =
     (case loadImage env (''data:'' @ mimeType @ '';base64,'' @ base64) of
        None \<Rightarrow> []
      | Some (w, h) \<Rightarrow>
          if getContext2d env
          then [[InlineData base64 mimeType,
                 InlineData (maskBase64 env (drawMask region w h)) ''image/png'',
                 Text instruction]]
          else [])"
  by (simp add: editImageWithSelection_def editImageWithSelection_try_def Let_def
      split: option.splits sum.splits prod.splits)

text \<open>The mask payload is defined: the data URL of a canvas always has a comma.\<close>

lemma maskBase64_defined:
  "element (split CHR '','' (toDataURL env canvas)) 1 \<noteq> None"
  by (simp add: toDataURL_def element_def split_nonempty)

text \<open>
  Claim C7. \<open>editImageWithPrompt\<close> sends one request, whose content is the primary image,
  then the reference image if and only if one is supplied, then the prompt text.
  \<open>editImageWithSelection\<close> sends nothing when the base image does not load or no canvas
  context is available, and otherwise one request, whose content is the base image, then
  the mask as \<^verbatim>\<open>image/png\<close>, then the prompt text; it takes no reference image.
\<close>

theorem outbound_content_sequence:
  "fst (editImageWithPrompt env base64 mimeType instruction reference) =
     [InlineData base64 mimeType #
        (case reference of
           None \<Rightarrow> []
         | Some r \<Rightarrow> [InlineData (img_base64 r) (img_mimeType r)]) @
        [Text instruction]]
   \<and> fst (editImageWithSelection env base64 mimeType instruction region) =
       (case loadImage env (''data:'' @ mimeType @ '';base64,'' @ base64) of
          None \<Rightarrow> []
        | Some (w, h) \<Rightarrow>
            if getContext2d env
            then [[InlineData base64 mimeType,
                   InlineData (maskBase64 env (drawMask region w h)) ''image/png'',
                   Text instruction]]
            else [])"
  using editImageWithPrompt_sent[of env base64 mimeType instruction reference]
    editImageWithSelection_sent[of env base64 mimeType instruction region]
  by simp

theorem outbound_content_sequence_witness:
  "fst (editImageWithPrompt (exampleEnv jpegResponse) ''AAAA'' ''image/jpeg'' ''brighter'' None) =
     [[InlineData ''AAAA'' ''image/jpeg'', Text ''brighter'']]
   \<and> fst (editImageWithPrompt (exampleEnv jpegResponse) ''AAAA'' ''image/jpeg'' ''brighter''
            (Some examplePhoto)) =
     [[InlineData ''AAAA'' ''image/jpeg'', InlineData ''AAAA'' ''image/jpeg'', Text ''brighter'']]
   \<and> fst (editImageWithSelection (exampleEnv jpegResponse) ''CCCC'' ''image/png'' ''blue sky''
            \<lparr>sel_x = 25, sel_y = 25, sel_width = 50, sel_height = 50\<rparr>) =
     [[InlineData ''CCCC'' ''image/png'', InlineData ''MASK'' ''image/png'', Text ''blue sky'']]"
  using outbound_content_sequence[of "exampleEnv jpegResponse" "''AAAA''" "''image/jpeg''"
      "''brighter''" None "\<lparr>sel_x = 25, sel_y = 25, sel_width = 50, sel_height = 50\<rparr>"]
    outbound_content_sequence[of "exampleEnv jpegResponse" "''AAAA''" "''image/jpeg''"
      "''brighter''" "Some examplePhoto" "\<lparr>sel_x = 25, sel_y = 25, sel_width = 50, sel_height = 50\<rparr>"]
    outbound_content_sequence[of "exampleEnv jpegResponse" "''CCCC''" "''image/png''"
      "''blue sky''" None "\<lparr>sel_x = 25, sel_y = 25, sel_width = 50, sel_height = 50\<rparr>"]
  by (simp add: exampleEnv_def examplePhoto_def maskBase64_def toDataURL_def drawMask_size
      element_def)

text \<open>
  Claim C1 on the code. When the service answers with a response that has no image-typed
  content unit, the error for the missing image is raised inside the \<^verbatim>\<open>try\<close> block and
  replaced by its \<^verbatim>\<open>catch\<close> clause: the promise rejects with the generic failure, the
  same as when the call to the service itself fails, and not with an error of its own.
\<close>

theorem no_image_reported_as_generic_failure:
  assumes "generateContent env
             (InlineData base64 mimeType #
                (case reference of
                   None \<Rightarrow> []
                 | Some r \<Rightarrow> [InlineData (img_base64 r) (img_mimeType r)]) @
                [Text instruction]) = Inr response"
    and "list_all isText (responseParts response)"
  shows "snd (editImageWithPrompt_try env base64 mimeType instruction reference) = Inl NoImageGenerated
         \<and> snd (editImageWithPrompt env base64 mimeType instruction reference) = Inl EditFailed
         \<and> snd (editImageWithPrompt (env\<lparr>generateContent := (\<lambda>parts. Inl ServiceFailure)\<rparr>)
                  base64 mimeType instruction reference) = Inl EditFailed"
proof -
  have none: "firstInlineData (responseParts response) = None"
    using assms(2) by (simp add: firstInlineData_none)
  have "snd (editImageWithPrompt_try env base64 mimeType instruction reference) = Inl NoImageGenerated"
    using assms(1) none
    by (simp add: editImageWithPrompt_try_def Let_def extractImage_def split: option.splits)
  moreover have "snd (editImageWithPrompt env base64 mimeType instruction reference) = Inl EditFailed"
    using assms(1) none by (simp add: editImageWithPrompt_outcome)
  moreover have "snd (editImageWithPrompt (env\<lparr>generateContent := (\<lambda>parts. Inl ServiceFailure)\<rparr>)
                  base64 mimeType instruction reference) = Inl EditFailed"
    by (simp add: editImageWithPrompt_outcome)
  ultimately show ?thesis
    by simp
qed

theorem no_image_reported_as_generic_failure_witness:
  "responseParts declinedResponse = [Text ''blocked'']
   \<and> snd (editImageWithPrompt (exampleEnv declinedResponse) ''AAAA'' ''image/jpeg'' ''brighter'' None)
       = Inl EditFailed
   \<and> snd (editImageWithPrompt
            ((exampleEnv declinedResponse)\<lparr>generateContent := (\<lambda>parts. Inl ServiceFailure)\<rparr>)
            ''AAAA'' ''image/jpeg'' ''brighter'' None)
       = Inl EditFailed"
proof -
  have answer: "generateContent (exampleEnv declinedResponse)
             (InlineData ''AAAA'' ''image/jpeg'' #
                (case None of
                   None \<Rightarrow> []
                 | Some r \<Rightarrow> [InlineData (img_base64 r) (img_mimeType r)]) @
                [Text ''brighter'']) = Inr declinedResponse"
    by (simp add: exampleEnv_def)
  have parts: "responseParts declinedResponse = [Text ''blocked'']"
    by (simp add: responseParts_def declinedResponse_def)
  then have texts: "list_all isText (responseParts declinedResponse)"
    by simp
  from no_image_reported_as_generic_failure[OF answer texts] parts
  show ?thesis
    by simp
qed

section \<open>The controller\<close>

lemma split_no_separator: "sep \<notin> set s \<Longrightarrow> split sep s = [s]"
  by (induction s) auto

lemma pngDataURL_split:
  "CHR '','' \<notin> set payload \<Longrightarrow>
   split CHR '','' (pngDataURL payload) = [''data:image/png;base64'', payload]"
  by (simp add: pngDataURL_def split_no_separator)

text \<open>The next region edit reads the format tag back from the stored data URL.\<close>

lemma pngDataURL_mimeType:
  "matchMimeType ''data:image/png;base64'' = Some ''image/png''"
  by (simp add: isLineTerminator_def)

lemma handleInpaintRequest_start_png:
  assumes "editedImage s = Some (pngDataURL payload)" "payload \<noteq> []" "CHR '','' \<notin> set payload"
    and "selection s = Some region" "trim (inpaintPrompt s) \<noteq> []"
  shows "handleInpaintRequest_start s =
     (s\<lparr>isLoading := True, error := None\<rparr>,
      Some (EditWithSelection payload ''image/png'' (inpaintPrompt s) region))"
proof -
  have "truthy (editedImage s)"
    using assms(1) by (simp add: truthy_def pngDataURL_def)
  then show ?thesis
    using assms pngDataURL_split[of payload] pngDataURL_mimeType
    by (simp add: handleInpaintRequest_start_def Let_def truthy_def element_def)
qed

text \<open>What a handler sends is what its call into the pipeline sends.\<close>

lemma handleEditRequest_sent:
  "snd (handleEditRequest env s) =
     (case snd (handleEditRequest_start s) of
        None \<Rightarrow> []
      | Some call \<Rightarrow> fst (runCall env call))"
  by (simp add: handleEditRequest_def split: prod.splits option.splits)

lemma handleInpaintRequest_sent:
  "snd (handleInpaintRequest env s) =
     (case snd (handleInpaintRequest_start s) of
        None \<Rightarrow> []
      | Some call \<Rightarrow> fst (runCall env call))"
  by (simp add: handleInpaintRequest_def split: prod.splits option.splits)

text \<open>A handler that calls the pipeline has marked the state as loading.\<close>

lemma dispatch_sets_isLoading:
  "snd (handleEditRequest_start s) \<noteq> None \<Longrightarrow> isLoading (fst (handleEditRequest_start s))"
  "snd (handleInpaintRequest_start s) \<noteq> None \<Longrightarrow> isLoading (fst (handleInpaintRequest_start s))"
  by (auto simp: handleEditRequest_start_def handleInpaintRequest_start_def Let_def
      split: if_splits)

lemma trim_examples: "trim ''brighter'' = ''brighter''" "trim ''blue sky'' = ''blue sky''"
  by (simp_all add: trim_def isWhiteSpace_def isLineTerminator_def)

text \<open>The part of the upload that runs after the file is read touches neither the edited
  image nor the selection, at whatever later state it runs.\<close>

lemma handleImageUpload_finish_frame:
  "editedImage (handleImageUpload_finish file outcome s) = editedImage s
   \<and> isSelecting (handleImageUpload_finish file outcome s) = isSelecting s
   \<and> selection (handleImageUpload_finish file outcome s) = selection s"
  by (simp add: handleImageUpload_finish_def split: sum.splits prod.splits)

text \<open>
  Claim C8. An upload of a primary image that succeeds (the file declares an image type
  and is converted) leaves no edited image, selection mode off and no stored region,
  whatever the state was before, and stores the converted file as the original image.
\<close>

theorem upload_clears_edit_and_selection:
  assumes "startsWith (file_type file) ''image/''" and "fileToBase64 file = Inr (base64, mimeType)"
  shows "editedImage (handleImageUpload (Some file) s) = None
     \<and> \<not> isSelecting (handleImageUpload (Some file) s)
     \<and> selection (handleImageUpload (Some file) s) = None
     \<and> originalImage (handleImageUpload (Some file) s) =
         Some \<lparr>img_url = file_objectURL file, img_base64 = base64, img_mimeType = mimeType\<rparr>"
  using assms
  by (simp add: handleImageUpload_def handleImageUpload_start_def handleImageUpload_finish_def)

theorem upload_clears_edit_and_selection_witness:
  "editedImage readyState = Some ''data:image/png;base64,CCCC'' \<and> isSelecting readyState
   \<and> startsWith (file_type svgFile) ''image/''
   \<and> fileToBase64 svgFile = Inr (''AAAA'', ''image/svg+xml'')
   \<and> editedImage (handleImageUpload (Some svgFile) readyState) = None
   \<and> isSelecting (handleImageUpload (Some svgFile) readyState) = False
   \<and> selection (handleImageUpload (Some svgFile) readyState) = None
   \<and> originalImage (handleImageUpload (Some svgFile) readyState) =
       Some \<lparr>img_url = ''blob:1'', img_base64 = ''AAAA'', img_mimeType = ''image/svg+xml''\<rparr>"
proof -
  have image: "startsWith (file_type svgFile) ''image/''"
    by (simp add: startsWith_def svgFile_def)
  have converted: "fileToBase64 svgFile = Inr (''AAAA'', ''image/svg+xml'')"
    by (simp add: fileToBase64_def svgFile_def element_def truthy_def isLineTerminator_def)
  from upload_clears_edit_and_selection[OF image converted, of readyState] image converted
  show ?thesis
    by (simp add: readyState_def svgFile_def)
qed

text \<open>What \<open>handleInpaintRequest\<close> decides, in terms of the stored data URL: the header is
  the text before its first comma, the payload the text between the first comma and the
  second (or the end).\<close>

lemma handleInpaintRequest_start_call:
  assumes "selection s = Some region" and "editedImage s = Some dataURL"
  shows "snd (handleInpaintRequest_start s) =
     (let header = takeWhile (\<lambda>c. c \<noteq> CHR '','') dataURL;
          payload = takeWhile (\<lambda>c. c \<noteq> CHR '','') (tl (dropWhile (\<lambda>c. c \<noteq> CHR '','') dataURL))
      in case matchMimeType header of
           None \<Rightarrow> None
         | Some mimeType \<Rightarrow>
             if dataURL = [] \<or> trim (inpaintPrompt s) = [] \<or> payload = [] then None
             else Some (EditWithSelection payload mimeType (inpaintPrompt s) region))"
proof (cases "CHR '','' \<in> set dataURL")
  case True
  with assms show ?thesis
    by (auto simp: handleInpaintRequest_start_def Let_def split_first split_second truthy_def
        split: option.splits)
next
  case False
  then have "dropWhile (\<lambda>c. c \<noteq> CHR '','') dataURL = []"
    by auto
  with assms False show ?thesis
    by (auto simp: handleInpaintRequest_start_def Let_def split_first split_second truthy_def
        simp del: dropWhile_eq_Nil_conv split: option.splits)
qed

text \<open>
  Claim C2 as the code has it. When the stored region has width or height zero, the card
  of the edited image does not render the form that holds the submit control of the
  region edit, so that a click reaches no handler: nothing is dispatched and the state
  is unchanged. The handler itself does not look at the extents of the region. With a
  region stored, it calls the pipeline with that region exactly when the stored edited
  image is a non-empty data URL whose header matches \<^verbatim>\<open>/:(.*?);/\<close> and whose payload is
  not empty and the region prompt is not blank; otherwise it calls nothing.
\<close>

theorem degenerate_region_has_no_submit_control:
  assumes "selection s = Some region"
  shows "(degenerate region \<longrightarrow> \<not> inpaintFormShown s \<and> clickInpaintGenerate s = (s, None))
     \<and> snd (handleInpaintRequest_start s) =
         (case editedImage s of
            None \<Rightarrow> None
          | Some dataURL \<Rightarrow>
              (let header = takeWhile (\<lambda>c. c \<noteq> CHR '','') dataURL;
                   payload = takeWhile (\<lambda>c. c \<noteq> CHR '','')
                               (tl (dropWhile (\<lambda>c. c \<noteq> CHR '','') dataURL))
               in case matchMimeType header of
                    None \<Rightarrow> None
                  | Some mimeType \<Rightarrow>
                      if dataURL = [] \<or> trim (inpaintPrompt s) = [] \<or> payload = [] then None
                      else Some (EditWithSelection payload mimeType (inpaintPrompt s) region)))"
proof -
  have "\<not> inpaintFormShown s \<and> clickInpaintGenerate s = (s, None)" if "degenerate region"
    using assms that
    by (auto simp: clickInpaintGenerate_def inpaintFormShown_def degenerate_def)
  moreover have "snd (handleInpaintRequest_start s) = None" if "editedImage s = None"
    using that by (simp add: handleInpaintRequest_start_def truthy_def)
  ultimately show ?thesis
    using handleInpaintRequest_start_call[OF assms]
    by (auto split: option.splits)
qed

theorem degenerate_region_has_no_submit_control_witness:
  "selection degenerateState = Some \<lparr>sel_x = 10, sel_y = 10, sel_width = 0, sel_height = 0\<rparr>
   \<and> degenerate \<lparr>sel_x = 10, sel_y = 10, sel_width = 0, sel_height = 0\<rparr>
   \<and> inpaintFormShown degenerateState = False
   \<and> clickInpaintGenerate degenerateState = (degenerateState, None)
   \<and> snd (handleInpaintRequest_start degenerateState) =
       Some (EditWithSelection ''CCCC'' ''image/png'' ''blue sky''
               \<lparr>sel_x = 10, sel_y = 10, sel_width = 0, sel_height = 0\<rparr>)
   \<and> snd (handleInpaintRequest_start (readyState\<lparr>editedImage := Some ''data:image/png;base64,''\<rparr>)) =
       None"
proof -
  have stored: "selection degenerateState =
      Some \<lparr>sel_x = 10, sel_y = 10, sel_width = 0, sel_height = 0\<rparr>"
    by (simp add: degenerateState_def)
  have flat: "degenerate \<lparr>sel_x = 10, sel_y = 10, sel_width = 0, sel_height = 0\<rparr>"
    by (simp add: degenerate_def)
  have other: "selection (readyState\<lparr>editedImage := Some ''data:image/png;base64,''\<rparr>) =
      Some \<lparr>sel_x = 25, sel_y = 25, sel_width = 50, sel_height = 50\<rparr>"
    by (simp add: readyState_def)
  have url: "editedImage degenerateState = Some ''data:image/png;base64,CCCC''"
    "inpaintPrompt degenerateState = ''blue sky''"
    "inpaintPrompt (readyState\<lparr>editedImage := Some ''data:image/png;base64,''\<rparr>) = ''blue sky''"
    by (simp_all add: degenerateState_def readyState_def)
  from degenerate_region_has_no_submit_control[OF stored]
    degenerate_region_has_no_submit_control[OF other] stored flat
  show ?thesis
    by (simp add: url trim_examples isLineTerminator_def)
qed

text \<open>
  Claim C2 as it is written does not hold of the handler: \<open>handleInpaintRequest\<close> tests
  that a region is stored, not what its extents are. Called in a state whose region has
  width and height zero, it calls the pipeline with that region, and the request goes
  out to the service.
\<close>

theorem handler_dispatches_degenerate_region_counterexample:
  "selection degenerateState = Some \<lparr>sel_x = 10, sel_y = 10, sel_width = 0, sel_height = 0\<rparr>
   \<and> degenerate \<lparr>sel_x = 10, sel_y = 10, sel_width = 0, sel_height = 0\<rparr>
   \<and> snd (handleInpaintRequest_start degenerateState) =
       Some (EditWithSelection ''CCCC'' ''image/png'' ''blue sky''
               \<lparr>sel_x = 10, sel_y = 10, sel_width = 0, sel_height = 0\<rparr>)
   \<and> snd (handleInpaintRequest (exampleEnv jpegResponse) degenerateState) =
       [[InlineData ''CCCC'' ''image/png'', InlineData ''MASK'' ''image/png'', Text ''blue sky'']]"
proof -
  have start: "handleInpaintRequest_start degenerateState =
      (degenerateState\<lparr>isLoading := True, error := None\<rparr>,
       Some (EditWithSelection ''CCCC'' ''image/png'' ''blue sky''
               \<lparr>sel_x = 10, sel_y = 10, sel_width = 0, sel_height = 0\<rparr>))"
    using handleInpaintRequest_start_png[of degenerateState "''CCCC''"
        "\<lparr>sel_x = 10, sel_y = 10, sel_width = 0, sel_height = 0\<rparr>"]
    by (simp add: degenerateState_def readyState_def pngDataURL_def trim_examples)
  have "fst (editImageWithSelection (exampleEnv jpegResponse) ''CCCC'' ''image/png'' ''blue sky''
               \<lparr>sel_x = 10, sel_y = 10, sel_width = 0, sel_height = 0\<rparr>) =
       [[InlineData ''CCCC'' ''image/png'', InlineData ''MASK'' ''image/png'', Text ''blue sky'']]"
    by (simp add: editImageWithSelection_sent exampleEnv_def maskBase64_def toDataURL_def
        drawMask_size element_def)
  with start show ?thesis
    by (simp add: handleInpaintRequest_sent degenerate_def degenerateState_def)
qed

text \<open>Neither handler reads \<open>isLoading\<close>: what it calls does not depend on it.\<close>

lemma handlers_ignore_isLoading:
  "snd (handleEditRequest_start (s\<lparr>isLoading := loading\<rparr>)) = snd (handleEditRequest_start s)"
  "snd (handleInpaintRequest_start (s\<lparr>isLoading := loading\<rparr>)) = snd (handleInpaintRequest_start s)"
  by (simp_all add: handleEditRequest_start_def handleInpaintRequest_start_def Let_def)

text \<open>
  Claim C3 as the code has it. While an edit is in flight (\<open>isLoading\<close>), the submit
  control of the whole-image edit is disabled and that of the region edit is disabled and
  not rendered, so that a click reaches no handler: nothing is dispatched and the state
  is unchanged.
\<close>

theorem disabled_controls_while_loading:
  assumes "isLoading s"
  shows "clickGenerate s = (s, None) \<and> clickInpaintGenerate s = (s, None)"
  using assms
  by (simp add: clickGenerate_def generateDisabled_def clickInpaintGenerate_def inpaintDisabled_def)

theorem disabled_controls_while_loading_witness:
  "isLoading loadingState
   \<and> clickGenerate loadingState = (loadingState, None)
   \<and> clickInpaintGenerate loadingState = (loadingState, None)
   \<and> snd (clickGenerate readyState) =
       Some (EditWithPrompt ''AAAA'' ''image/jpeg'' ''brighter'' None)"
proof -
  have loading: "isLoading loadingState"
    by (simp add: loadingState_def)
  have "snd (clickGenerate readyState) =
       Some (EditWithPrompt ''AAAA'' ''image/jpeg'' ''brighter'' None)"
    by (simp add: clickGenerate_def generateDisabled_def handleEditRequest_start_def Let_def
        readyState_def examplePhoto_def trim_examples)
  with disabled_controls_while_loading[OF loading] loading show ?thesis
    by simp
qed

text \<open>
  Claim C3 as it is written does not hold of the handlers: neither tests \<open>isLoading\<close>.
  Called while an edit is in flight, each calls the pipeline again.
\<close>

theorem handlers_dispatch_while_loading_counterexample:
  "isLoading loadingState
   \<and> snd (handleEditRequest_start loadingState) =
       Some (EditWithPrompt ''AAAA'' ''image/jpeg'' ''brighter'' None)
   \<and> snd (handleInpaintRequest_start loadingState) =
       Some (EditWithSelection ''CCCC'' ''image/png'' ''blue sky''
               \<lparr>sel_x = 25, sel_y = 25, sel_width = 50, sel_height = 50\<rparr>)
   \<and> snd (handleEditRequest (exampleEnv jpegResponse) loadingState) =
       [[InlineData ''AAAA'' ''image/jpeg'', Text ''brighter'']]"
proof -
  have edit: "handleEditRequest_start loadingState =
      (loadingState\<lparr>isLoading := True, error := None, editedImage := None, isSelecting := False,
         selection := None\<rparr>,
       Some (EditWithPrompt ''AAAA'' ''image/jpeg'' ''brighter'' None))"
    by (simp add: handleEditRequest_start_def Let_def loadingState_def readyState_def
        examplePhoto_def trim_examples)
  have inpaint: "handleInpaintRequest_start loadingState =
      (loadingState\<lparr>isLoading := True, error := None\<rparr>,
       Some (EditWithSelection ''CCCC'' ''image/png'' ''blue sky''
               \<lparr>sel_x = 25, sel_y = 25, sel_width = 50, sel_height = 50\<rparr>))"
    using handleInpaintRequest_start_png[of loadingState "''CCCC''"
        "\<lparr>sel_x = 25, sel_y = 25, sel_width = 50, sel_height = 50\<rparr>"]
    by (simp add: loadingState_def readyState_def pngDataURL_def trim_examples)
  have "fst (editImageWithPrompt (exampleEnv jpegResponse) ''AAAA'' ''image/jpeg'' ''brighter'' None) =
       [[InlineData ''AAAA'' ''image/jpeg'', Text ''brighter'']]"
    by (simp add: editImageWithPrompt_sent)
  with edit inpaint show ?thesis
    by (simp add: handleEditRequest_sent loadingState_def)
qed

text \<open>
  Claim C10. Let the service answer every request with a response whose first image-typed
  unit carries the payload \<open>d\<close> and declares the format \<open>m\<close>. Then a whole-image edit from a
  state with an original image and a non-blank prompt, and a region edit from a state
  with a stored edited image, a region and a non-blank region prompt (the image loading
  and the canvas working), both end with the edited image stored as the data URL
  \<^verbatim>\<open>data:image/png;base64,\<close> followed by \<open>d\<close>: the declared format \<open>m\<close> does not appear.
\<close>

theorem edited_image_labelled_png:
  assumes service: "\<forall>parts. generateContent env parts = Inr response"
    and first: "responseParts response = texts @ InlineData d m # rest" "list_all isText texts"
  shows "(originalImage s \<noteq> None \<and> trim (prompt s) \<noteq> [] \<longrightarrow>
            editedImage (fst (handleEditRequest env s)) = Some (''data:image/png;base64,'' @ d))
       \<and> (editedImage s = Some (pngDataURL payload) \<and> payload \<noteq> [] \<and> CHR '','' \<notin> set payload
            \<and> selection s \<noteq> None \<and> trim (inpaintPrompt s) \<noteq> []
            \<and> loadImage env (''data:image/png;base64,'' @ payload) \<noteq> None \<and> getContext2d env \<longrightarrow>
            editedImage (fst (handleInpaintRequest env s)) = Some (''data:image/png;base64,'' @ d))"
proof -
  have img: "extractImage response = Inr d"
    using first by (rule extractImage_first)
  have edit: "editedImage (fst (handleEditRequest env s)) = Some (''data:image/png;base64,'' @ d)"
    if "originalImage s \<noteq> None" "trim (prompt s) \<noteq> []"
  proof -
    from that(1) obtain original where original: "originalImage s = Some original"
      by auto
    have start: "handleEditRequest_start s =
        (s\<lparr>isLoading := True, error := None, editedImage := None, isSelecting := False,
           selection := None\<rparr>,
         Some (EditWithPrompt (img_base64 original) (img_mimeType original) (trim (prompt s))
                 (referenceImage s)))"
      using original that(2) by (simp add: handleEditRequest_start_def Let_def)
    obtain sent where "editImageWithPrompt env (img_base64 original) (img_mimeType original)
        (trim (prompt s)) (referenceImage s) = (sent, Inr d)"
      using service img
      by (simp add: editImageWithPrompt_def editImageWithPrompt_try_def Let_def)
    with start show ?thesis
      by (simp add: handleEditRequest_def handleEditRequest_finish_def pngDataURL_def)
  qed
  have inpaint: "editedImage (fst (handleInpaintRequest env s)) = Some (''data:image/png;base64,'' @ d)"
    if pre: "editedImage s = Some (pngDataURL payload)" "payload \<noteq> []" "CHR '','' \<notin> set payload"
      "selection s \<noteq> None" "trim (inpaintPrompt s) \<noteq> []"
      "loadImage env (''data:image/png;base64,'' @ payload) \<noteq> None" "getContext2d env"
  proof -
    from pre(4) obtain region where region: "selection s = Some region"
      by auto
    from pre(6) obtain w h where dims: "loadImage env (''data:image/png;base64,'' @ payload) = Some (w, h)"
      by auto
    have start: "handleInpaintRequest_start s =
        (s\<lparr>isLoading := True, error := None\<rparr>,
         Some (EditWithSelection payload ''image/png'' (inpaintPrompt s) region))"
      using pre(1,2,3) region pre(5) by (rule handleInpaintRequest_start_png)
    have "editImageWithSelection env payload ''image/png'' (inpaintPrompt s) region =
        ([[InlineData payload ''image/png'',
           InlineData (maskBase64 env (drawMask region w h)) ''image/png'',
           Text (inpaintPrompt s)]], Inr d)"
      using dims pre(7) service img
      by (simp add: editImageWithSelection_def editImageWithSelection_try_def Let_def)
    with start show ?thesis
      by (simp add: handleInpaintRequest_def handleInpaintRequest_finish_def pngDataURL_def)
  qed
  from edit inpaint show ?thesis
    by blast
qed

theorem edited_image_labelled_png_witness:
  "responseParts jpegResponse = [Text ''done'', InlineData ''BBBB'' ''image/jpeg'']
   \<and> editedImage (fst (handleEditRequest (exampleEnv jpegResponse) readyState)) =
       Some ''data:image/png;base64,BBBB''
   \<and> editedImage (fst (handleInpaintRequest (exampleEnv jpegResponse) readyState)) =
       Some ''data:image/png;base64,BBBB''"
proof -
  have service: "\<forall>parts. generateContent (exampleEnv jpegResponse) parts = Inr jpegResponse"
    by (simp add: exampleEnv_def)
  have parts: "responseParts jpegResponse = [Text ''done''] @ InlineData ''BBBB'' ''image/jpeg'' # []"
    by (simp add: responseParts_def jpegResponse_def)
  have texts: "list_all isText [Text ''done'']"
    by simp
  from edited_image_labelled_png[OF service parts texts, of readyState "''CCCC''"] parts
  show ?thesis
    by (simp add: readyState_def exampleEnv_def pngDataURL_def trim_examples)
qed

end
